theory Spec2Isabelle
  imports Complex_Main
begin

section \<open>Time values\<close>

text \<open>
  A Go \<open>time.Time\<close> is modelled as an instant on the UTC time line: the number of
  nanoseconds since 1970-01-01T00:00:00Z. Locations other than UTC (and with them
  daylight-saving shifts) are not modelled. \<open>uuid.UUID\<close> values are natural numbers,
  \<open>0\<close> standing for \<open>uuid.Nil\<close>.
\<close>

type_synonym time = int
type_synonym uuid = nat

definition nsPerDay :: int where
  "nsPerDay = 86400000000000"

definition After :: "time \<Rightarrow> time \<Rightarrow> bool" where
  "After t u = (u < t)"

definition Before :: "time \<Rightarrow> time \<Rightarrow> bool" where
  "Before t u = (t < u)"

definition Equal :: "time \<Rightarrow> time \<Rightarrow> bool" where
  "Equal t u = (t = u)"

text \<open>\<open>t.AddDate(0, 0, n)\<close> in UTC moves the instant by \<open>n\<close> times 24 hours.\<close>

definition AddDate_days :: "time \<Rightarrow> int \<Rightarrow> time" where
  "AddDate_days t n = t + n * nsPerDay"

datatype Weekday = Sunday | Monday | Tuesday | Wednesday | Thursday | Friday | Saturday

text \<open>1970-01-01 was a Thursday; Go numbers the weekdays from Sunday = 0.\<close>

definition Weekday :: "time \<Rightarrow> Weekday" where
  "Weekday t =
     [Sunday, Monday, Tuesday, Wednesday, Thursday, Friday, Saturday]
       ! nat ((t div nsPerDay + 4) mod 7)"

text \<open>
  \<open>t.Year()\<close>: the Gregorian year of the UTC day holding the instant, computed from the
  day number by the usual era/day-of-era decomposition (eras of 400 years starting on
  0000-03-01).
\<close>

definition Time_Year :: "time \<Rightarrow> int" where
  "Time_Year t =
     (let z = t div nsPerDay + 719468;
          era = z div 146097;
          doe = z - era * 146097;
          yoe = (doe - doe div 1460 + doe div 36524 - doe div 146096) div 365;
          doy = doe - (365 * yoe + yoe div 4 - yoe div 100);
          mp = (5 * doy + 2) div 153
      in yoe + era * 400 + (if mp < 10 then 0 else 1))"

text \<open>
  \<open>time.Duration\<close> is a signed 64-bit count of nanoseconds; \<open>t.Sub(u)\<close> saturates at
  its bounds. Go's integer division truncates toward zero.
\<close>

definition maxDuration :: int where
  "maxDuration = 9223372036854775807"

definition minDuration :: int where
  "minDuration = - 9223372036854775808"

definition Sub :: "time \<Rightarrow> time \<Rightarrow> int" where
  "Sub t u =
     (let d = t - u
      in if maxDuration < d then maxDuration
         else if d < minDuration then minDuration
         else d)"

definition quo :: "int \<Rightarrow> int \<Rightarrow> int" where
  "quo a b = sgn a * sgn b * (\<bar>a\<bar> div \<bar>b\<bar>)"

definition Milliseconds :: "int \<Rightarrow> int" where
  "Milliseconds d = quo d 1000000"

section \<open>Errors\<close>

text \<open>
  The repository reports failures as plain \<open>error\<close> values: messages built by
  \<open>errors.New\<close>, and the errors of the storage layer (no row found by \<open>First\<close>, a
  primary key already taken on insert, a value written to a generated column).
\<close>

datatype error = ErrRecordNotFound | ErrDuplicatedKey | ErrGeneratedAlways | New string

section \<open>Domain records\<close>

text \<open>
  The structs of \<open>internal/domain\<close>. Day quantities (\<open>float64\<close> in Go,
  \<open>DECIMAL(5,2)\<close> in the schema) are exact rationals here; the audit timestamps of
  \<open>Base\<close> and the preloaded association pointers are left out.
\<close>

record Base =
  ID :: uuid

record LeaveType = Base +
  OrganizationID :: uuid
  Name :: string
  Description :: string
  Color :: string
  DefaultDays :: int
  IsPaid :: bool
  RequiresApproval :: bool
  MinDaysNotice :: int
  MaxDaysPerRequest :: int

record LeaveBalance = Base +
  OrganizationID :: uuid
  EmployeeID :: uuid
  LeaveTypeID :: uuid
  Year :: int
  TotalDays :: rat
  UsedDays :: rat
  PendingDays :: rat
  RemainingDays :: rat

record LeaveRequest = Base +
  OrganizationID :: uuid
  EmployeeID :: uuid
  LeaveTypeID :: uuid
  StartDate :: time
  EndDate :: time
  Days :: rat
  Status :: string
  Reason :: string
  Comments :: string
  ApprovedBy :: "uuid option"
  ApprovedAt :: "time option"

record LeaveRequestHistory = Base +
  LeaveRequestID :: uuid
  Action :: string
  Status :: string
  Comments :: string
  PerformedBy :: uuid

record LeaveBalanceAdjustment = Base +
  LeaveBalanceID :: uuid
  Adjustment :: rat
  Reason :: string
  PerformedBy :: uuid
  ApprovedBy :: "uuid option"
  ApprovedAt :: "time option"
  Comments :: string
  Status :: string

record CreateLeaveRequestRequest =
  EmployeeID :: uuid
  LeaveTypeID :: uuid
  StartDate :: time
  EndDate :: time
  TotalDays :: rat
  Status :: string
  Reason :: string
  Comment :: string

definition LeaveStatusPending :: string where
  "LeaveStatusPending = ''pending''"

definition LeaveStatusApproved :: string where
  "LeaveStatusApproved = ''approved''"

definition LeaveStatusRejected :: string where
  "LeaveStatusRejected = ''rejected''"

definition LeaveStatusCancelled :: string where
  "LeaveStatusCancelled = ''cancelled''"

definition AdjustmentStatusPending :: string where
  "AdjustmentStatusPending = ''pending''"

definition AdjustmentStatusApproved :: string where
  "AdjustmentStatusApproved = ''approved''"

definition AdjustmentStatusRejected :: string where
  "AdjustmentStatusRejected = ''rejected''"

section \<open>Working-day calculator and the hooks of a leave request\<close>

text \<open>
  The loop of \<open>calculateWorkingDays\<close>: \<open>current\<close> runs from \<open>start\<close> in steps of one
  day while it is not after \<open>end\<close>; \<open>days\<close> counts the steps that fall on neither a
  Saturday nor a Sunday.
\<close>

function calculateWorkingDays_loop :: "time \<Rightarrow> time \<Rightarrow> rat \<Rightarrow> rat" where
  "calculateWorkingDays_loop current endDate days =
     (if Before current endDate \<or> Equal current endDate
      then calculateWorkingDays_loop (AddDate_days current 1) endDate
             (if Weekday current \<noteq> Saturday \<and> Weekday current \<noteq> Sunday
              then days + 1 else days)
      else days)"
  by pat_completeness auto
termination
  by (relation "measure (\<lambda>(current, endDate, days). nat (endDate - current + 1))")
     (auto simp: Before_def Equal_def AddDate_days_def nsPerDay_def)

declare calculateWorkingDays_loop.simps [simp del]

definition calculateWorkingDays :: "time \<Rightarrow> time \<Rightarrow> rat" where
  "calculateWorkingDays start endDate = calculateWorkingDays_loop start endDate 0"

definition BeforeCreate :: "LeaveRequest \<Rightarrow> error + LeaveRequest" where
  "BeforeCreate l =
     (if After (LeaveRequest.StartDate l) (LeaveRequest.EndDate l)
      then Inl (New ''start date must be before end date'')
      else Inr (l\<lparr>Days := calculateWorkingDays (LeaveRequest.StartDate l) (LeaveRequest.EndDate l)\<rparr>))"

definition BeforeUpdate :: "LeaveRequest \<Rightarrow> error option" where
  "BeforeUpdate l =
     (if LeaveRequest.Status l = LeaveStatusApproved \<and> LeaveRequest.ApprovedBy l = None
      then Some (New ''approved_by is required when status is approved'')
      else None)"

text \<open>\<open>CanCancel\<close> reads the clock; the current time is its argument \<open>now\<close>.\<close>

definition CanCancel :: "time \<Rightarrow> LeaveRequest \<Rightarrow> bool" where
  "CanCancel now l =
     (LeaveRequest.Status l = LeaveStatusPending \<or>
      (LeaveRequest.Status l = LeaveStatusApproved \<and> After (LeaveRequest.StartDate l) now))"

definition CanApprove :: "LeaveRequest \<Rightarrow> bool" where
  "CanApprove l = (LeaveRequest.Status l = LeaveStatusPending)"

text \<open>
  The contract of the calculator in the specification's words: the days of the
  inclusive range are \<open>start\<close>, \<open>start\<close> plus one day, and so on up to \<open>end\<close>; the
  result is the number of them that are neither a Saturday nor a Sunday.
\<close>

definition days_in_range :: "time \<Rightarrow> time \<Rightarrow> time list" where
  "days_in_range start endDate =
     map (\<lambda>k. start + int k * nsPerDay) [0 ..< nat ((endDate - start) div nsPerDay + 1)]"

definition is_weekend :: "time \<Rightarrow> bool" where
  "is_weekend d = (Weekday d = Saturday \<or> Weekday d = Sunday)"

definition weekdays_in_range :: "time \<Rightarrow> time \<Rightarrow> nat" where
  "weekdays_in_range start endDate =
     length (filter (\<lambda>d. \<not> is_weekend d) (days_in_range start endDate))"

section \<open>The store\<close>

text \<open>
  The tables of the migration, each a list of rows. A transaction runs its body on the
  store; when the body returns an error, everything the body wrote is dropped and the
  store is as before, otherwise the body's writes are kept.
\<close>

record DB =
  leave_types :: "LeaveType list"
  leave_balances :: "LeaveBalance list"
  leave_requests :: "LeaveRequest list"
  leave_request_history :: "LeaveRequestHistory list"
  leave_balance_adjustments :: "LeaveBalanceAdjustment list"

definition Transaction :: "(DB \<Rightarrow> (error + 'a) \<times> DB) \<Rightarrow> DB \<Rightarrow> (error + 'a) \<times> DB" where
  "Transaction fc db =
     (case fc db of
        (Inl err, tx) \<Rightarrow> (Inl err, db)
      | (Inr x, tx) \<Rightarrow> (Inr x, tx))"

text \<open>
  The columns that gorm derives from the fields of the \<open>LeaveBalance\<close> struct. None
  of the fields is tagged read-only, so a \<open>Save\<close> names every one of these columns in
  its \<open>UPDATE\<close>, \<open>remaining_days\<close> with the value the struct carries in
  \<open>RemainingDays\<close>. Of the columns of \<open>leave_balances\<close>, the migration declares
  \<open>remaining_days\<close> as
  \<open>GENERATED ALWAYS AS (total_days - used_days - pending_days) STORED\<close>; the database
  refuses a statement that gives a value to such a column.
\<close>

definition LeaveBalance_columns :: "string list" where
  "LeaveBalance_columns =
     [''id'', ''created_at'', ''updated_at'', ''organization_id'', ''employee_id'',
      ''leave_type_id'', ''year'', ''total_days'', ''used_days'', ''pending_days'',
      ''remaining_days'']"

definition leave_balances_generated :: "string list" where
  "leave_balances_generated = [''remaining_days'']"

text \<open>
  \<open>tx.Save\<close> of a row read earlier in the same transaction: an update of all columns
  of the row with that primary key. For a ledger row the update is refused when one of
  the columns it names is generated.
\<close>

definition Save_LeaveBalance :: "LeaveBalance \<Rightarrow> DB \<Rightarrow> (error + unit) \<times> DB" where
  "Save_LeaveBalance balance tx =
     (if filter (\<lambda>column. column \<in> set leave_balances_generated) LeaveBalance_columns \<noteq> []
      then (Inl ErrGeneratedAlways, tx)
      else (Inr (),
            tx\<lparr>leave_balances :=
                 map (\<lambda>row. if ID row = ID balance then balance else row)
                   (leave_balances tx)\<rparr>))"

definition Save_LeaveRequest :: "LeaveRequest \<Rightarrow> DB \<Rightarrow> (error + unit) \<times> DB" where
  "Save_LeaveRequest request tx =
     (case BeforeUpdate request of
        Some err \<Rightarrow> (Inl err, tx)
      | None \<Rightarrow>
          (Inr (),
           tx\<lparr>leave_requests :=
                map (\<lambda>row. if ID row = ID request then request else row)
                  (leave_requests tx)\<rparr>))"

definition Save_LeaveBalanceAdjustment :: "LeaveBalanceAdjustment \<Rightarrow> DB \<Rightarrow> DB" where
  "Save_LeaveBalanceAdjustment adjustment tx =
     tx\<lparr>leave_balance_adjustments :=
          map (\<lambda>row. if ID row = ID adjustment then adjustment else row)
            (leave_balance_adjustments tx)\<rparr>"

text \<open>
  \<open>tx.Create\<close>: the hooks run first; a zero primary key and an empty status take the
  column defaults (\<open>gen_random_uuid()\<close>, whose value is the argument \<open>newid\<close>, and
  \<open>'pending'\<close>); the insert fails when the primary key is taken.
\<close>

definition Create_LeaveRequest ::
    "uuid \<Rightarrow> LeaveRequest \<Rightarrow> DB \<Rightarrow> (error + LeaveRequest) \<times> DB" where
  "Create_LeaveRequest newid request tx =
     (case BeforeCreate request of
        Inl err \<Rightarrow> (Inl err, tx)
      | Inr l \<Rightarrow>
          (let row = l\<lparr>ID := (if ID l = 0 then newid else ID l),
                       LeaveRequest.Status :=
                         (if LeaveRequest.Status l = [] then ''pending''
                          else LeaveRequest.Status l)\<rparr>
           in if ID row \<in> set (map ID (leave_requests tx))
              then (Inl ErrDuplicatedKey, tx)
              else (Inr row, tx\<lparr>leave_requests := leave_requests tx @ [row]\<rparr>)))"


section \<open>The repository\<close>

definition leaveRepository_GetLeaveType :: "uuid \<Rightarrow> DB \<Rightarrow> error + LeaveType" where
  "leaveRepository_GetLeaveType id' db =
     (case find (\<lambda>row. ID row = id') (leave_types db) of
        None \<Rightarrow> Inl ErrRecordNotFound
      | Some leaveType \<Rightarrow> Inr leaveType)"

text \<open>
  The \<open>Where\<close> clause that selects the ledger row of a request, and the \<open>First\<close>
  that reads it: the row of the request's employee and leave type for the year of its
  start date.
\<close>

definition balance_where :: "uuid \<Rightarrow> uuid \<Rightarrow> int \<Rightarrow> LeaveBalance \<Rightarrow> bool" where
  "balance_where employee_id leave_type_id year row =
     (LeaveBalance.EmployeeID row = employee_id \<and>
      LeaveBalance.LeaveTypeID row = leave_type_id \<and>
      LeaveBalance.Year row = year)"

definition First_LeaveBalance :: "LeaveRequest \<Rightarrow> DB \<Rightarrow> LeaveBalance option" where
  "First_LeaveBalance request tx =
     find (balance_where (LeaveRequest.EmployeeID request) (LeaveRequest.LeaveTypeID request)
             (Time_Year (LeaveRequest.StartDate request)))
       (leave_balances tx)"

definition leaveRepository_CreateLeaveRequest ::
    "uuid \<Rightarrow> LeaveRequest \<Rightarrow> DB \<Rightarrow> (error + LeaveRequest) \<times> DB" where
  "leaveRepository_CreateLeaveRequest newid request db =
     Transaction (\<lambda>tx.
       case Create_LeaveRequest newid request tx of
         (Inl err, tx1) \<Rightarrow> (Inl err, tx1)
       | (Inr request1, tx1) \<Rightarrow>
           (case First_LeaveBalance request1 tx1 of
              None \<Rightarrow> (Inl ErrRecordNotFound, tx1)
            | Some balance \<Rightarrow>
                (case Save_LeaveBalance
                        (balance\<lparr>PendingDays :=
                            LeaveBalance.PendingDays balance + Days request1\<rparr>) tx1 of
                   (Inl err, tx2) \<Rightarrow> (Inl err, tx2)
                 | (Inr u, tx2) \<Rightarrow> (Inr request1, tx2)))) db"

text \<open>The \<open>switch\<close> of \<open>UpdateLeaveRequest\<close> on the new status.\<close>

definition status_change_effect :: "LeaveRequest \<Rightarrow> LeaveBalance \<Rightarrow> LeaveBalance" where
  "status_change_effect request balance =
     (if LeaveRequest.Status request = ''approved''
      then balance\<lparr>PendingDays := LeaveBalance.PendingDays balance - Days request,
                   UsedDays := LeaveBalance.UsedDays balance + Days request\<rparr>
      else if LeaveRequest.Status request = ''rejected'' \<or>
              LeaveRequest.Status request = ''cancelled''
      then balance\<lparr>PendingDays := LeaveBalance.PendingDays balance - Days request\<rparr>
      else balance)"

definition leaveRepository_UpdateLeaveRequest ::
    "LeaveRequest \<Rightarrow> DB \<Rightarrow> (error + unit) \<times> DB" where
  "leaveRepository_UpdateLeaveRequest request db =
     Transaction (\<lambda>tx.
       case find (\<lambda>row. ID row = ID request) (leave_requests tx) of
         None \<Rightarrow> (Inl ErrRecordNotFound, tx)
       | Some oldRequest \<Rightarrow>
           (if LeaveRequest.Status oldRequest \<noteq> LeaveRequest.Status request
            then (case First_LeaveBalance request tx of
                    None \<Rightarrow> (Inl ErrRecordNotFound, tx)
                  | Some balance \<Rightarrow>
                      (case Save_LeaveBalance (status_change_effect request balance) tx of
                         (Inl err, tx1) \<Rightarrow> (Inl err, tx1)
                       | (Inr u, tx1) \<Rightarrow> Save_LeaveRequest request tx1))
            else Save_LeaveRequest request tx)) db"

text \<open>
  The condition of \<open>GetOverlappingRequests\<close>; \<open>x BETWEEN a AND b\<close> is
  \<open>a \<le> x \<and> x \<le> b\<close>.
\<close>

definition overlap_where :: "uuid \<Rightarrow> time \<Rightarrow> time \<Rightarrow> LeaveRequest \<Rightarrow> bool" where
  "overlap_where employeeID startDate endDate row =
     (LeaveRequest.EmployeeID row = employeeID \<and>
      LeaveRequest.Status row \<in> set [''pending'', ''approved''] \<and>
      ((startDate \<le> LeaveRequest.StartDate row \<and> LeaveRequest.StartDate row \<le> endDate) \<or>
       (startDate \<le> LeaveRequest.EndDate row \<and> LeaveRequest.EndDate row \<le> endDate) \<or>
       (LeaveRequest.StartDate row \<le> startDate \<and> LeaveRequest.EndDate row \<ge> endDate)))"

definition leaveRepository_GetOverlappingRequests ::
    "uuid \<Rightarrow> time \<Rightarrow> time \<Rightarrow> DB \<Rightarrow> LeaveRequest list" where
  "leaveRepository_GetOverlappingRequests employeeID startDate endDate db =
     filter (overlap_where employeeID startDate endDate) (leave_requests db)"

text \<open>\<open>CreateLeaveRequestHistory\<close> is a plain insert, outside any transaction.\<close>

definition leaveRepository_CreateLeaveRequestHistory ::
    "uuid \<Rightarrow> LeaveRequestHistory \<Rightarrow> DB \<Rightarrow> (error + LeaveRequestHistory) \<times> DB" where
  "leaveRepository_CreateLeaveRequestHistory newid history db =
     (let row = history\<lparr>ID := (if ID history = 0 then newid else ID history)\<rparr>
      in if ID row \<in> set (map ID (leave_request_history db))
         then (Inl ErrDuplicatedKey, db)
         else (Inr row, db\<lparr>leave_request_history := leave_request_history db @ [row]\<rparr>))"


definition leaveRepository_UpdateBalanceAdjustment ::
    "LeaveBalanceAdjustment \<Rightarrow> DB \<Rightarrow> (error + unit) \<times> DB" where
  "leaveRepository_UpdateBalanceAdjustment adjustment db =
     Transaction (\<lambda>tx.
       case find (\<lambda>row. ID row = ID adjustment) (leave_balance_adjustments tx) of
         None \<Rightarrow> (Inl ErrRecordNotFound, tx)
       | Some oldAdjustment \<Rightarrow>
           (if LeaveBalanceAdjustment.Status oldAdjustment \<noteq> LeaveBalanceAdjustment.Status adjustment \<and>
               LeaveBalanceAdjustment.Status adjustment = AdjustmentStatusApproved
            then (case find (\<lambda>row. ID row = LeaveBalanceID adjustment) (leave_balances tx) of
                    None \<Rightarrow> (Inl ErrRecordNotFound, tx)
                  | Some balance \<Rightarrow>
                      (case Save_LeaveBalance
                              (balance\<lparr>LeaveBalance.TotalDays :=
                                  LeaveBalance.TotalDays balance + Adjustment adjustment\<rparr>) tx of
                         (Inl err, tx1) \<Rightarrow> (Inl err, tx1)
                       | (Inr u, tx1) \<Rightarrow> (Inr (), Save_LeaveBalanceAdjustment adjustment tx1)))
            else (Inr (), Save_LeaveBalanceAdjustment adjustment tx))) db"

section \<open>The service\<close>

definition leaveService_GetLeaveType :: "uuid \<Rightarrow> uuid \<Rightarrow> DB \<Rightarrow> error + LeaveType" where
  "leaveService_GetLeaveType orgID id' db =
     (case leaveRepository_GetLeaveType id' db of
        Inl err \<Rightarrow> Inl err
      | Inr leaveType \<Rightarrow>
          if LeaveType.OrganizationID leaveType \<noteq> orgID
          then Inl (New ''leave type not found in organization'')
          else Inr leaveType)"

text \<open>
  The day count the service compares with the policy maximum:
  \<open>int(req.EndDate.Sub(req.StartDate).Milliseconds() / 86400000)\<close>.
\<close>

definition totalDays :: "time \<Rightarrow> time \<Rightarrow> int" where
  "totalDays startDate endDate = quo (Milliseconds (Sub endDate startDate)) 86400000"

definition leaveService_CreateLeaveRequest ::
    "uuid \<Rightarrow> uuid \<Rightarrow> CreateLeaveRequestRequest \<Rightarrow> DB \<Rightarrow> (error + LeaveRequest) \<times> DB" where
  "leaveService_CreateLeaveRequest newid orgID req db =
     (if CreateLeaveRequestRequest.EmployeeID req = 0
      then (Inl (New ''employee ID is required''), db)
      else if CreateLeaveRequestRequest.LeaveTypeID req = 0
      then (Inl (New ''leave type ID is required''), db)
      else if After (CreateLeaveRequestRequest.StartDate req) (CreateLeaveRequestRequest.EndDate req)
      then (Inl (New ''start date cannot be after end date''), db)
      else
        (case leaveService_GetLeaveType orgID (CreateLeaveRequestRequest.LeaveTypeID req) db of
           Inl err \<Rightarrow> (Inl err, db)
         | Inr leaveType \<Rightarrow>
             if totalDays (CreateLeaveRequestRequest.StartDate req)
                  (CreateLeaveRequestRequest.EndDate req) > MaxDaysPerRequest leaveType
             then (Inl (New ''total days exceed maximum allowed''), db)
             else leaveRepository_CreateLeaveRequest newid
                    \<lparr>ID = 0,
                     LeaveRequest.OrganizationID = 0,
                     LeaveRequest.EmployeeID = CreateLeaveRequestRequest.EmployeeID req,
                     LeaveRequest.LeaveTypeID = CreateLeaveRequestRequest.LeaveTypeID req,
                     LeaveRequest.StartDate = CreateLeaveRequestRequest.StartDate req,
                     LeaveRequest.EndDate = CreateLeaveRequestRequest.EndDate req,
                     Days = 0,
                     LeaveRequest.Status = LeaveStatusPending,
                     LeaveRequest.Reason = CreateLeaveRequestRequest.Reason req,
                     LeaveRequest.Comments = [],
                     LeaveRequest.ApprovedBy = None,
                     LeaveRequest.ApprovedAt = None\<rparr> db))"

section \<open>Example data\<close>

text \<open>
  2025-01-06, a Monday, is day 20094 after the epoch. The example store holds one leave
  type of organisation 1 with at most five days per request, and the 2025 ledger row
  of employee 7 for it with ten days.
\<close>

definition monday :: time where
  "monday = 20094 * nsPerDay"

definition example_leave_type :: LeaveType where
  "example_leave_type =
     \<lparr>ID = 3, LeaveType.OrganizationID = 1, Name = ''Vacation'', Description = [],
      Color = ''#00ff00'', DefaultDays = 10, IsPaid = True, RequiresApproval = True,
      MinDaysNotice = 0, MaxDaysPerRequest = 5\<rparr>"

definition example_balance :: LeaveBalance where
  "example_balance =
     \<lparr>ID = 11, LeaveBalance.OrganizationID = 1, LeaveBalance.EmployeeID = 7,
      LeaveBalance.LeaveTypeID = 3, Year = 2025, LeaveBalance.TotalDays = 10,
      UsedDays = 0, PendingDays = 0, RemainingDays = 10\<rparr>"

definition example_db :: DB where
  "example_db =
     \<lparr>leave_types = [example_leave_type], leave_balances = [example_balance],
      leave_requests = [], leave_request_history = [], leave_balance_adjustments = []\<rparr>"

text \<open>A request of employee 7 for Monday to Wednesday, not yet inserted.\<close>

definition example_request :: LeaveRequest where
  "example_request =
     \<lparr>ID = 0, LeaveRequest.OrganizationID = 1, LeaveRequest.EmployeeID = 7,
      LeaveRequest.LeaveTypeID = 3, LeaveRequest.StartDate = monday,
      LeaveRequest.EndDate = monday + 2 * nsPerDay, Days = 0,
      LeaveRequest.Status = ''pending'', LeaveRequest.Reason = ''family visit'',
      LeaveRequest.Comments = [], LeaveRequest.ApprovedBy = None,
      LeaveRequest.ApprovedAt = None\<rparr>"

text \<open>
  The stages of that request: inserted under the generated key 21 with its three
  working days, approved by user 9, then cancelled or rejected. The stores below hold
  the request at one of these stages, with the ledger counters that the repository
  computes for that stage.
\<close>

definition example_created :: LeaveRequest where
  "example_created = example_request\<lparr>ID := 21, Days := 3\<rparr>"

definition example_approved :: LeaveRequest where
  "example_approved =
     example_created\<lparr>LeaveRequest.Status := ''approved'', LeaveRequest.ApprovedBy := Some 9\<rparr>"

definition example_cancelled :: LeaveRequest where
  "example_cancelled = example_approved\<lparr>LeaveRequest.Status := ''cancelled''\<rparr>"

definition example_rejected :: LeaveRequest where
  "example_rejected = example_approved\<lparr>LeaveRequest.Status := ''rejected''\<rparr>"

definition example_db_reserved :: DB where
  "example_db_reserved =
     example_db\<lparr>leave_requests := [example_created],
                leave_balances := [example_balance\<lparr>PendingDays := 3, RemainingDays := 7\<rparr>]\<rparr>"

definition example_db_approved :: DB where
  "example_db_approved =
     example_db\<lparr>leave_requests := [example_approved],
                leave_balances :=
                  [example_balance\<lparr>UsedDays := 3, PendingDays := 0, RemainingDays := 7\<rparr>]\<rparr>"

definition example_db_rejected :: DB where
  "example_db_rejected =
     example_db\<lparr>leave_requests := [example_rejected],
                leave_balances :=
                  [example_balance\<lparr>UsedDays := 3, PendingDays := - 3, RemainingDays := 10\<rparr>]\<rparr>"

text \<open>
  An adjustment of two days on the example ledger row, stored as pending, and the same
  adjustment as submitted for approval by user 9; a store that holds it as pending and
  one that holds it as approved.
\<close>

definition example_adjustment :: LeaveBalanceAdjustment where
  "example_adjustment =
     \<lparr>ID = 41, LeaveBalanceID = 11, Adjustment = 2, LeaveBalanceAdjustment.Reason = ''carry over'',
      LeaveBalanceAdjustment.PerformedBy = 8, LeaveBalanceAdjustment.ApprovedBy = None,
      LeaveBalanceAdjustment.ApprovedAt = None, LeaveBalanceAdjustment.Comments = [],
      LeaveBalanceAdjustment.Status = ''pending''\<rparr>"

definition example_adjustment_approved :: LeaveBalanceAdjustment where
  "example_adjustment_approved =
     example_adjustment\<lparr>LeaveBalanceAdjustment.ApprovedBy := Some 9,
                         LeaveBalanceAdjustment.Status := ''approved''\<rparr>"

definition example_db_adjustment :: DB where
  "example_db_adjustment = example_db\<lparr>leave_balance_adjustments := [example_adjustment]\<rparr>"

definition example_db_adjustment_approved :: DB where
  "example_db_adjustment_approved =
     example_db\<lparr>leave_balance_adjustments := [example_adjustment_approved]\<rparr>"

text \<open>
  A pending request of employee 7 from Monday to Thursday (days 1 to 4 of the week), to
  be compared with the candidate range Wednesday to Friday (days 3 to 5).
\<close>

definition example_existing :: LeaveRequest where
  "example_existing = example_created\<lparr>LeaveRequest.EndDate := monday + 3 * nsPerDay, Days := 4\<rparr>"

definition example_db_existing :: DB where
  "example_db_existing = example_db\<lparr>leave_requests := [example_existing]\<rparr>"

text \<open>
  The body of a creation call for Monday to Wednesday, in which the client claims the
  status \<open>approved\<close> and 99 days; and one for Monday to the Sunday after it, a range
  of five working days over six elapsed days.
\<close>

definition example_req :: CreateLeaveRequestRequest where
  "example_req =
     \<lparr>CreateLeaveRequestRequest.EmployeeID = 7, CreateLeaveRequestRequest.LeaveTypeID = 3,
      CreateLeaveRequestRequest.StartDate = monday,
      CreateLeaveRequestRequest.EndDate = monday + 2 * nsPerDay,
      TotalDays = 99, CreateLeaveRequestRequest.Status = ''approved'',
      CreateLeaveRequestRequest.Reason = ''family visit'', Comment = []\<rparr>"

definition example_req_week :: CreateLeaveRequestRequest where
  "example_req_week = example_req\<lparr>CreateLeaveRequestRequest.EndDate := monday + 6 * nsPerDay\<rparr>"

text \<open>
  A creation call for Monday to Friday, five working days over four elapsed days, and a
  store whose leave type allows at most four days per request; a call for Monday to the
  Friday of the week after, ten working days.
\<close>

definition example_req_workweek :: CreateLeaveRequestRequest where
  "example_req_workweek =
     example_req\<lparr>CreateLeaveRequestRequest.EndDate := monday + 4 * nsPerDay\<rparr>"

definition example_db_max4 :: DB where
  "example_db_max4 = example_db\<lparr>leave_types := [example_leave_type\<lparr>MaxDaysPerRequest := 4\<rparr>]\<rparr>"

definition example_req_fortnight :: CreateLeaveRequestRequest where
  "example_req_fortnight =
     example_req\<lparr>CreateLeaveRequestRequest.EndDate := monday + 11 * nsPerDay\<rparr>"

text \<open>The approved request, submitted again with the same status and a comment.\<close>

definition example_approved_commented :: LeaveRequest where
  "example_approved_commented = example_approved\<lparr>LeaveRequest.Comments := ''enjoy''\<rparr>"

section \<open>The working-day calculator\<close>

text \<open>
  The calendar functions at known dates: the epoch, a Thursday in 1970; the last
  instant of 1969; 2000-02-29; the last day of 2024 and the first of 2025; and
  2025-01-06, the Monday of the examples.
\<close>

lemma Weekday_examples:
  "Weekday 0 = Thursday" "Weekday (- 1) = Wednesday" "Weekday monday = Monday"
  "Weekday (monday + 5 * nsPerDay) = Saturday" "Weekday (monday + 6 * nsPerDay) = Sunday"
  by (simp_all add: Weekday_def monday_def nsPerDay_def)

lemma Time_Year_examples:
  "Time_Year 0 = 1970" "Time_Year (- 1) = 1969" "Time_Year (11016 * nsPerDay) = 2000"
  "Time_Year (20088 * nsPerDay) = 2024" "Time_Year (20089 * nsPerDay) = 2025"
  by code_simp+

lemma days_in_range_empty: "endDate < start \<Longrightarrow> days_in_range start endDate = []"
proof -
  assume a: "endDate < start"
  have "(endDate - start) div nsPerDay < 0"
    using a by (simp add: nsPerDay_def div_neg_pos_less0)
  then show ?thesis by (simp add: days_in_range_def)
qed

lemma days_in_range_step:
  assumes "start \<le> endDate"
  shows "days_in_range start endDate = start # days_in_range (start + nsPerDay) endDate"
proof -
  let ?m = "nat ((endDate - (start + nsPerDay)) div nsPerDay + 1)"
  have d: "(endDate - (start + nsPerDay)) div nsPerDay = (endDate - start) div nsPerDay - 1"
    by (simp add: nsPerDay_def algebra_simps div_diff)
  have nn: "0 \<le> (endDate - start) div nsPerDay"
    using assms by (simp add: nsPerDay_def pos_imp_zdiv_nonneg_iff)
  have n: "nat ((endDate - start) div nsPerDay + 1) = Suc ?m"
    using nn d by simp
  have "[0 ..< Suc ?m] = 0 # map Suc [0 ..< ?m]"
    by (simp add: upt_conv_Cons map_Suc_upt del: upt_Suc)
  then show ?thesis
    unfolding days_in_range_def n
    by (simp add: algebra_simps del: upt_Suc)
qed

text \<open>The loop adds to its counter the number of working days from \<open>current\<close> on.\<close>

lemma calculateWorkingDays_loop_count:
  "calculateWorkingDays_loop current endDate days =
     days + of_nat (weekdays_in_range current endDate)"
proof (induction current endDate days rule: calculateWorkingDays_loop.induct)
  case (1 current endDate days)
  show ?case
  proof (cases "current \<le> endDate")
    case True
    then have c: "Before current endDate \<or> Equal current endDate"
      by (auto simp: Before_def Equal_def)
    have step: "weekdays_in_range current endDate =
        (if is_weekend current then 0 else 1) + weekdays_in_range (current + nsPerDay) endDate"
      by (simp add: weekdays_in_range_def days_in_range_step [OF True])
    show ?thesis
      using c "1.IH" [OF c] step
      by (subst calculateWorkingDays_loop.simps)
         (simp add: AddDate_days_def is_weekend_def)
  next
    case False
    then have c: "\<not> (Before current endDate \<or> Equal current endDate)"
      by (auto simp: Before_def Equal_def)
    from False have "days_in_range current endDate = []"
      by (simp add: days_in_range_empty)
    then show ?thesis
      using c by (subst calculateWorkingDays_loop.simps) (simp add: weekdays_in_range_def)
  qed
qed

lemma calculateWorkingDays_count:
  "calculateWorkingDays start endDate = of_nat (weekdays_in_range start endDate)"
  by (simp add: calculateWorkingDays_def calculateWorkingDays_loop_count)

text \<open>
  \<open>days_in_range\<close> is the inclusive range: exactly the instants a whole number of days
  after \<open>start\<close> that are not after \<open>end\<close>.
\<close>

lemma le_div_iff_mult_le:
  fixes a b k :: int
  assumes "0 < b"
  shows "(k \<le> a div b) = (k * b \<le> a)"
proof
  assume "k \<le> a div b"
  then have "k * b \<le> (a div b) * b"
    using assms by (simp add: mult_right_mono)
  moreover have "(a div b) * b + a mod b = a" by simp
  moreover have "0 \<le> a mod b" using assms by simp
  ultimately show "k * b \<le> a" by linarith
next
  assume "k * b \<le> a"
  then have "(k * b) div b \<le> a div b"
    using assms by (rule zdiv_mono1)
  then show "k \<le> a div b"
    using assms by simp
qed

lemma days_in_range_index:
  "(k < nat ((endDate - start) div nsPerDay + 1)) = (start + int k * nsPerDay \<le> endDate)"
proof -
  have pos: "0 < nsPerDay" by (simp add: nsPerDay_def)
  have "(k < nat ((endDate - start) div nsPerDay + 1)) =
        (int k \<le> (endDate - start) div nsPerDay)"
    by linarith
  also have "\<dots> = (int k * nsPerDay \<le> endDate - start)"
    using pos by (rule le_div_iff_mult_le)
  also have "\<dots> = (start + int k * nsPerDay \<le> endDate)"
    by linarith
  finally show ?thesis .
qed

lemma set_days_in_range:
  "set (days_in_range start endDate) =
     {d. \<exists>k::nat. d = start + int k * nsPerDay \<and> d \<le> endDate}"
proof -
  have "set (days_in_range start endDate) =
      (\<lambda>k. start + int k * nsPerDay) ` {k. k < nat ((endDate - start) div nsPerDay + 1)}"
    by (simp add: days_in_range_def atLeast0LessThan lessThan_def)
  also have "\<dots> = (\<lambda>k. start + int k * nsPerDay) ` {k. start + int k * nsPerDay \<le> endDate}"
    by (simp only: days_in_range_index)
  also have "\<dots> = {d. \<exists>k::nat. d = start + int k * nsPerDay \<and> d \<le> endDate}"
    by blast
  finally show ?thesis .
qed

lemma length_days_in_range:
  "length (days_in_range start endDate) = nat ((endDate - start) div nsPerDay + 1)"
  by (simp add: days_in_range_def)

subsection \<open>Weekdays of the days after a given one\<close>

lemma Weekday_index:
  "Weekday t = d \<longleftrightarrow>
     (t div nsPerDay + 4) mod 7 =
       (case d of Sunday \<Rightarrow> 0 | Monday \<Rightarrow> 1 | Tuesday \<Rightarrow> 2 | Wednesday \<Rightarrow> 3
        | Thursday \<Rightarrow> 4 | Friday \<Rightarrow> 5 | Saturday \<Rightarrow> 6)"
proof -
  define i where "i = (t div nsPerDay + 4) mod 7"
  have "0 \<le> i" "i < 7" by (simp_all add: i_def)
  then have "i = 0 \<or> i = 1 \<or> i = 2 \<or> i = 3 \<or> i = 4 \<or> i = 5 \<or> i = 6" by arith
  moreover have "Weekday t =
      [Sunday, Monday, Tuesday, Wednesday, Thursday, Friday, Saturday] ! nat i"
    by (simp add: Weekday_def i_def)
  ultimately show ?thesis
    unfolding i_def [symmetric]
    by (cases d) (auto simp: numeral_eq_Suc)
qed

lemma Weekday_shift:
  assumes "(t div nsPerDay + 4) mod 7 = i"
  shows "((t + k * nsPerDay) div nsPerDay + 4) mod 7 = (i + k) mod 7"
proof -
  have "(t + k * nsPerDay) div nsPerDay + 4 = (t div nsPerDay + 4) + k"
    by (simp add: nsPerDay_def)
  then show ?thesis
    using assms by (metis mod_add_left_eq)
qed

lemma is_weekend_shift:
  assumes "(t div nsPerDay + 4) mod 7 = i"
  shows "is_weekend (t + k * nsPerDay) = ((i + k) mod 7 = 6 \<or> (i + k) mod 7 = 0)"
  by (simp add: is_weekend_def Weekday_index Weekday_shift [OF assms])

lemma monday_to_friday:
  assumes "Weekday start = Monday"
  shows "calculateWorkingDays start (start + 4 * nsPerDay) = 5"
proof -
  have i: "(start div nsPerDay + 4) mod 7 = 1"
    using assms by (simp add: Weekday_index)
  note w = is_weekend_shift [OF i]
  have d: "days_in_range start (start + 4 * nsPerDay) =
      map (\<lambda>k. start + k * nsPerDay) [0, 1, 2, 3, 4]"
    by (simp add: days_in_range_def nsPerDay_def upt_conv_Cons)
  have ws: "\<not> is_weekend start" "\<not> is_weekend (start + nsPerDay)"
      "\<not> is_weekend (start + 2 * nsPerDay)" "\<not> is_weekend (start + 3 * nsPerDay)"
      "\<not> is_weekend (start + 4 * nsPerDay)"
    using w [of 0] w [of 1] w [of 2] w [of 3] w [of 4] by simp_all
  show ?thesis
    unfolding calculateWorkingDays_count weekdays_in_range_def d
    by (simp add: ws)
qed

lemma saturday_to_sunday:
  assumes "Weekday start = Saturday"
  shows "calculateWorkingDays start (start + nsPerDay) = 0"
proof -
  have i: "(start div nsPerDay + 4) mod 7 = 6"
    using assms by (simp add: Weekday_index)
  note w = is_weekend_shift [OF i]
  have d: "days_in_range start (start + nsPerDay) = map (\<lambda>k. start + k * nsPerDay) [0, 1]"
    by (simp add: days_in_range_def nsPerDay_def upt_conv_Cons)
  have ws: "is_weekend start" "is_weekend (start + nsPerDay)"
    using w [of 0] w [of 1] by simp_all
  show ?thesis
    unfolding calculateWorkingDays_count weekdays_in_range_def d
    by (simp add: ws)
qed

lemma friday_to_monday:
  assumes "Weekday start = Friday"
  shows "calculateWorkingDays start (start + 3 * nsPerDay) = 2"
proof -
  have i: "(start div nsPerDay + 4) mod 7 = 5"
    using assms by (simp add: Weekday_index)
  note w = is_weekend_shift [OF i]
  have d: "days_in_range start (start + 3 * nsPerDay) =
      map (\<lambda>k. start + k * nsPerDay) [0, 1, 2, 3]"
    by (simp add: days_in_range_def nsPerDay_def upt_conv_Cons)
  have ws: "\<not> is_weekend start" "is_weekend (start + nsPerDay)"
      "is_weekend (start + 2 * nsPerDay)" "\<not> is_weekend (start + 3 * nsPerDay)"
    using w [of 0] w [of 1] w [of 2] w [of 3] by simp_all
  show ?thesis
    unfolding calculateWorkingDays_count weekdays_in_range_def d
    by (simp add: ws)
qed

lemma weekdays_example: "weekdays_in_range monday (monday + 2 * nsPerDay) = 3"
  by (simp add: weekdays_in_range_def days_in_range_def is_weekend_def Weekday_def
        monday_def nsPerDay_def upt_conv_Cons)


text \<open>
  Claim C4. For every start and end with start not after end, the calculator returns
  the number of days of the inclusive range that are neither a Saturday nor a Sunday,
  and the creation hook stores that number in \<open>Days\<close>; for a start strictly after the
  end the hook fails with the invalid-range error. A Monday to the Friday after it
  gives 5, a Saturday to the Sunday after it 0, a Friday to the Monday after it 2.
\<close>

theorem working_day_calculator:
  "(start \<le> endDate \<longrightarrow>
      calculateWorkingDays start endDate = of_nat (weekdays_in_range start endDate) \<and>
      BeforeCreate (l\<lparr>LeaveRequest.StartDate := start, LeaveRequest.EndDate := endDate\<rparr>) =
        Inr (l\<lparr>LeaveRequest.StartDate := start, LeaveRequest.EndDate := endDate,
                Days := of_nat (weekdays_in_range start endDate)\<rparr>)) \<and>
   (endDate < start \<longrightarrow>
      BeforeCreate (l\<lparr>LeaveRequest.StartDate := start, LeaveRequest.EndDate := endDate\<rparr>) =
        Inl (New ''start date must be before end date'')) \<and>
   (Weekday start = Monday \<longrightarrow> calculateWorkingDays start (start + 4 * nsPerDay) = 5) \<and>
   (Weekday start = Saturday \<longrightarrow> calculateWorkingDays start (start + nsPerDay) = 0) \<and>
   (Weekday start = Friday \<longrightarrow> calculateWorkingDays start (start + 3 * nsPerDay) = 2)"
proof (intro conjI impI)
  assume "start \<le> endDate"
  then show "BeforeCreate (l\<lparr>LeaveRequest.StartDate := start, LeaveRequest.EndDate := endDate\<rparr>) =
        Inr (l\<lparr>LeaveRequest.StartDate := start, LeaveRequest.EndDate := endDate,
                Days := of_nat (weekdays_in_range start endDate)\<rparr>)"
    by (simp add: BeforeCreate_def After_def calculateWorkingDays_count)
next
  assume "endDate < start"
  then show "BeforeCreate (l\<lparr>LeaveRequest.StartDate := start, LeaveRequest.EndDate := endDate\<rparr>) =
        Inl (New ''start date must be before end date'')"
    by (simp add: BeforeCreate_def After_def)
next
  show "calculateWorkingDays start endDate = of_nat (weekdays_in_range start endDate)"
    by (rule calculateWorkingDays_count)
qed (erule monday_to_friday saturday_to_sunday friday_to_monday)+


theorem working_day_calculator_witness:
  "calculateWorkingDays monday (monday + 4 * nsPerDay) = 5 \<and>
   BeforeCreate example_request = Inr (example_request\<lparr>Days := 3\<rparr>) \<and>
   calculateWorkingDays (monday + 5 * nsPerDay) (monday + 5 * nsPerDay + nsPerDay) = 0 \<and>
   calculateWorkingDays (monday + 4 * nsPerDay) (monday + 4 * nsPerDay + 3 * nsPerDay) = 2 \<and>
   BeforeCreate (example_request\<lparr>LeaveRequest.EndDate := monday - nsPerDay\<rparr>) =
     Inl (New ''start date must be before end date'')"
proof (intro conjI)
  have "Weekday monday = Monday"
    by (simp add: Weekday_def monday_def nsPerDay_def)
  then show "calculateWorkingDays monday (monday + 4 * nsPerDay) = 5"
    using working_day_calculator [of monday "monday + 4 * nsPerDay" example_request] by blast
next
  have "monday \<le> monday + 2 * nsPerDay" by (simp add: nsPerDay_def)
  then have "BeforeCreate (example_request\<lparr>LeaveRequest.StartDate := monday,
          LeaveRequest.EndDate := monday + 2 * nsPerDay\<rparr>) =
        Inr (example_request\<lparr>LeaveRequest.StartDate := monday,
          LeaveRequest.EndDate := monday + 2 * nsPerDay,
          Days := of_nat (weekdays_in_range monday (monday + 2 * nsPerDay))\<rparr>)"
    using working_day_calculator [of monday "monday + 2 * nsPerDay" example_request] by blast
  moreover have "example_request\<lparr>LeaveRequest.StartDate := monday,
             LeaveRequest.EndDate := monday + 2 * nsPerDay\<rparr> = example_request"
    by (simp add: example_request_def)
  ultimately show "BeforeCreate example_request = Inr (example_request\<lparr>Days := 3\<rparr>)"
    by (simp add: weekdays_example)
next
  have "Weekday (monday + 5 * nsPerDay) = Saturday"
    by (simp add: Weekday_def monday_def nsPerDay_def)
  then show "calculateWorkingDays (monday + 5 * nsPerDay) (monday + 5 * nsPerDay + nsPerDay) = 0"
    using working_day_calculator [of "monday + 5 * nsPerDay" "monday + 6 * nsPerDay" example_request]
    by blast
next
  have "Weekday (monday + 4 * nsPerDay) = Friday"
    by (simp add: Weekday_def monday_def nsPerDay_def)
  then show "calculateWorkingDays (monday + 4 * nsPerDay) (monday + 4 * nsPerDay + 3 * nsPerDay) = 2"
    using working_day_calculator [of "monday + 4 * nsPerDay" "monday + 7 * nsPerDay" example_request]
    by blast
next
  have "monday - nsPerDay < monday" by (simp add: nsPerDay_def)
  then have "BeforeCreate (example_request\<lparr>LeaveRequest.StartDate := monday,
             LeaveRequest.EndDate := monday - nsPerDay\<rparr>) =
           Inl (New ''start date must be before end date'')"
    using working_day_calculator [of monday "monday - nsPerDay" example_request] by blast
  moreover have "example_request\<lparr>LeaveRequest.StartDate := monday,
             LeaveRequest.EndDate := monday - nsPerDay\<rparr> =
           example_request\<lparr>LeaveRequest.EndDate := monday - nsPerDay\<rparr>"
    by (simp add: example_request_def)
  ultimately show "BeforeCreate (example_request\<lparr>LeaveRequest.EndDate := monday - nsPerDay\<rparr>) =
     Inl (New ''start date must be before end date'')"
    by simp
qed

section \<open>Writing a ledger row\<close>

text \<open>
  The struct's columns include the generated column, so every \<open>Save\<close> of a ledger row
  is refused and leaves the transaction's store as it was.
\<close>

lemma Save_LeaveBalance_refused:
  "Save_LeaveBalance balance tx = (Inl ErrGeneratedAlways, tx)"
  by (simp add: Save_LeaveBalance_def LeaveBalance_columns_def leave_balances_generated_def)

lemma Transaction_rollback:
  "fst (Transaction fc db) = Inl err \<Longrightarrow> snd (Transaction fc db) = db"
  by (auto simp: Transaction_def split: prod.splits sum.splits)


section \<open>Creating a leave request\<close>

lemma Create_LeaveRequest_inserts:
  assumes "\<not> After (LeaveRequest.StartDate request) (LeaveRequest.EndDate request)"
    and "(if ID request = 0 then newid else ID request) \<notin> set (map ID (leave_requests tx))"
  shows "Create_LeaveRequest newid request tx =
     (Inr (request\<lparr>ID := (if ID request = 0 then newid else ID request),
             Days := calculateWorkingDays (LeaveRequest.StartDate request)
                       (LeaveRequest.EndDate request),
             LeaveRequest.Status :=
               (if LeaveRequest.Status request = [] then ''pending''
                else LeaveRequest.Status request)\<rparr>),
      tx\<lparr>leave_requests := leave_requests tx @
           [request\<lparr>ID := (if ID request = 0 then newid else ID request),
             Days := calculateWorkingDays (LeaveRequest.StartDate request)
                       (LeaveRequest.EndDate request),
             LeaveRequest.Status :=
               (if LeaveRequest.Status request = [] then ''pending''
                else LeaveRequest.Status request)\<rparr>]\<rparr>)"
  using assms
  by (auto simp: Create_LeaveRequest_def BeforeCreate_def Let_def split: if_splits)

lemma Create_LeaveRequest_ledger:
  assumes "Create_LeaveRequest newid request tx = (Inr request1, tx1)"
  shows "First_LeaveBalance request1 tx1 = First_LeaveBalance request tx"
  using assms
  by (auto simp: Create_LeaveRequest_def BeforeCreate_def Let_def First_LeaveBalance_def
        split: if_splits)


lemma CreateLeaveRequest_no_ledger:
  assumes "First_LeaveBalance request db = None"
    and "\<not> After (LeaveRequest.StartDate request) (LeaveRequest.EndDate request)"
    and "(if ID request = 0 then newid else ID request) \<notin> set (map ID (leave_requests db))"
  shows "leaveRepository_CreateLeaveRequest newid request db = (Inl ErrRecordNotFound, db)"
proof -
  note c = Create_LeaveRequest_inserts [OF assms(2,3)]
  from Create_LeaveRequest_ledger [OF c] assms(1) show ?thesis
    by (simp add: leaveRepository_CreateLeaveRequest_def Transaction_def c)
qed

lemma CreateLeaveRequest_ledger_refused:
  assumes "First_LeaveBalance request db = Some balance"
    and "\<not> After (LeaveRequest.StartDate request) (LeaveRequest.EndDate request)"
    and "(if ID request = 0 then newid else ID request) \<notin> set (map ID (leave_requests db))"
  shows "leaveRepository_CreateLeaveRequest newid request db = (Inl ErrGeneratedAlways, db)"
proof -
  note c = Create_LeaveRequest_inserts [OF assms(2,3)]
  from Create_LeaveRequest_ledger [OF c] assms(1) show ?thesis
    by (simp add: leaveRepository_CreateLeaveRequest_def Transaction_def c
          Save_LeaveBalance_refused)
qed

lemma Time_Year_monday: "Time_Year monday = 2025"
  by code_simp

lemma example_ledger: "First_LeaveBalance example_request example_db = Some example_balance"
  by (simp add: First_LeaveBalance_def example_request_def example_db_def example_balance_def
        balance_where_def Time_Year_monday)

lemma example_working_days:
  "calculateWorkingDays (LeaveRequest.StartDate example_request)
     (LeaveRequest.EndDate example_request) = 3"
  by (simp add: example_request_def calculateWorkingDays_count weekdays_example)

lemma example_hook_passes:
  "\<not> After (LeaveRequest.StartDate example_request) (LeaveRequest.EndDate example_request)"
  by (simp add: example_request_def After_def nsPerDay_def)

lemma example_insert:
  "Create_LeaveRequest 21 example_request example_db =
     (Inr example_created, example_db\<lparr>leave_requests := [example_created]\<rparr>)"
proof -
  have "(if ID example_request = 0 then 21 else ID example_request)
      \<notin> set (map ID (leave_requests example_db))"
    by (simp add: example_db_def)
  from Create_LeaveRequest_inserts [OF example_hook_passes this] show ?thesis
    by (simp add: example_working_days)
       (simp add: example_created_def example_request_def example_db_def)
qed

text \<open>
  Claim C1. The ledger row of the example request exists, the creation hook passes and
  the request row is inserted with its three working days; the write of the ledger row
  with \<open>pending_days\<close> raised to 3 is then refused, and \<open>CreateLeaveRequest\<close> returns
  that error with the store as before: no request row, \<open>pending_days\<close> still 0. The
  reservation that the claim describes does not take place.
\<close>

theorem CreateLeaveRequest_reservation_refused:
  "First_LeaveBalance example_request example_db = Some example_balance \<and>
   Create_LeaveRequest 21 example_request example_db =
     (Inr example_created, example_db\<lparr>leave_requests := [example_created]\<rparr>) \<and>
   LeaveBalance.PendingDays
     (example_balance\<lparr>PendingDays :=
        LeaveBalance.PendingDays example_balance + Days example_created\<rparr>) = 3 \<and>
   Save_LeaveBalance
     (example_balance\<lparr>PendingDays :=
        LeaveBalance.PendingDays example_balance + Days example_created\<rparr>)
     (example_db\<lparr>leave_requests := [example_created]\<rparr>) =
     (Inl ErrGeneratedAlways, example_db\<lparr>leave_requests := [example_created]\<rparr>) \<and>
   leaveRepository_CreateLeaveRequest 21 example_request example_db =
     (Inl ErrGeneratedAlways, example_db) \<and>
   leave_requests example_db = [] \<and>
   map LeaveBalance.PendingDays (leave_balances example_db) = [0]"
proof (intro conjI)
  show "leaveRepository_CreateLeaveRequest 21 example_request example_db =
     (Inl ErrGeneratedAlways, example_db)"
    by (rule CreateLeaveRequest_ledger_refused [OF example_ledger example_hook_passes])
       (simp add: example_db_def)
qed (simp_all add: example_ledger example_insert Save_LeaveBalance_refused,
     simp_all add: example_balance_def example_created_def example_db_def)

section \<open>Updating a leave request\<close>



text \<open>
  An update that changes the status goes through the ledger: with the ledger row
  present it ends in the refused write, whatever the old and the new status are.
\<close>

lemma UpdateLeaveRequest_status_change:
  assumes "find (\<lambda>row. ID row = ID request) (leave_requests db) = Some oldRequest"
    and "LeaveRequest.Status oldRequest \<noteq> LeaveRequest.Status request"
    and "First_LeaveBalance request db = Some balance"
  shows "leaveRepository_UpdateLeaveRequest request db = (Inl ErrGeneratedAlways, db)"
  using assms
  by (simp add: leaveRepository_UpdateLeaveRequest_def Transaction_def Save_LeaveBalance_refused)



subsection \<open>The example request at its stages\<close>

lemma example_stage_ledger:
  "First_LeaveBalance example_approved example_db_reserved =
     Some (example_balance\<lparr>PendingDays := 3, RemainingDays := 7\<rparr>)"
  "First_LeaveBalance example_cancelled example_db_approved =
     Some (example_balance\<lparr>UsedDays := 3, PendingDays := 0, RemainingDays := 7\<rparr>)"
  "First_LeaveBalance example_rejected example_db_approved =
     Some (example_balance\<lparr>UsedDays := 3, PendingDays := 0, RemainingDays := 7\<rparr>)"
  by (simp_all add: First_LeaveBalance_def example_db_reserved_def example_db_approved_def
        example_db_def example_approved_def example_cancelled_def example_rejected_def
        example_created_def example_request_def example_balance_def balance_where_def
        Time_Year_monday)

lemma example_stage_rows:
  "find (\<lambda>row. ID row = ID example_approved) (leave_requests example_db_reserved) =
     Some example_created"
  "find (\<lambda>row. ID row = ID example_cancelled) (leave_requests example_db_approved) =
     Some example_approved"
  "find (\<lambda>row. ID row = ID example_rejected) (leave_requests example_db_approved) =
     Some example_approved"
  "find (\<lambda>row. ID row = ID example_approved_commented) (leave_requests example_db_approved) =
     Some example_approved"
  by (simp_all add: example_db_reserved_def example_db_approved_def example_approved_def
        example_cancelled_def example_rejected_def example_approved_commented_def
        example_created_def)

lemma example_stage_status:
  "LeaveRequest.Status example_created = ''pending''"
  "LeaveRequest.Status example_approved = ''approved''"
  "LeaveRequest.Status example_cancelled = ''cancelled''"
  "LeaveRequest.Status example_rejected = ''rejected''"
  "LeaveRequest.Status example_approved_commented = ''approved''"
  by (simp_all add: example_approved_def example_cancelled_def example_rejected_def
        example_approved_commented_def example_created_def example_request_def)

lemma example_approve:
  "leaveRepository_UpdateLeaveRequest example_approved example_db_reserved =
     (Inl ErrGeneratedAlways, example_db_reserved)"
  by (rule UpdateLeaveRequest_status_change
        [OF example_stage_rows(1) _ example_stage_ledger(1)])
     (simp add: example_stage_status)

lemma example_cancel:
  "leaveRepository_UpdateLeaveRequest example_cancelled example_db_approved =
     (Inl ErrGeneratedAlways, example_db_approved)"
  by (rule UpdateLeaveRequest_status_change
        [OF example_stage_rows(2) _ example_stage_ledger(2)])
     (simp add: example_stage_status)

lemma example_reject:
  "leaveRepository_UpdateLeaveRequest example_rejected example_db_approved =
     (Inl ErrGeneratedAlways, example_db_approved)"
  by (rule UpdateLeaveRequest_status_change
        [OF example_stage_rows(3) _ example_stage_ledger(3)])
     (simp add: example_stage_status)

lemma example_can_cancel: "CanCancel (monday - nsPerDay) example_approved"
  by (simp add: CanCancel_def example_approved_def example_created_def example_request_def
        LeaveStatusApproved_def LeaveStatusPending_def After_def nsPerDay_def)

lemma example_switch:
  "status_change_effect example_approved (example_balance\<lparr>PendingDays := 3, RemainingDays := 7\<rparr>) =
     example_balance\<lparr>UsedDays := 3, PendingDays := 0, RemainingDays := 7\<rparr>"
  "status_change_effect example_cancelled
     (example_balance\<lparr>UsedDays := 3, PendingDays := 0, RemainingDays := 7\<rparr>) =
     example_balance\<lparr>UsedDays := 3, PendingDays := - 3, RemainingDays := 7\<rparr>"
  "status_change_effect example_rejected
     (example_balance\<lparr>UsedDays := 3, PendingDays := 0, RemainingDays := 7\<rparr>) =
     example_balance\<lparr>UsedDays := 3, PendingDays := - 3, RemainingDays := 7\<rparr>"
  by (simp_all add: status_change_effect_def example_approved_def example_cancelled_def
        example_rejected_def example_created_def example_request_def example_balance_def)

text \<open>
  Claim C2. On the ledger with ten days in total and nothing used or pending, the
  reservation of three days computes \<open>pending_days = 3\<close>, and for the approval the
  \<open>switch\<close> of \<open>UpdateLeaveRequest\<close> computes \<open>used_days = 3\<close>, \<open>pending_days = 0\<close>, as
  the claim says. For the cancellation of the approved request, whose start is still
  in the future, the same \<open>switch\<close> takes the three days from \<open>pending_days\<close> once more
  and leaves \<open>used_days\<close> alone: the ledger row it computes has \<open>used_days = 3\<close> and
  \<open>pending_days = -3\<close>, not both at zero. The write of that row is refused, so the
  stored row keeps \<open>used_days = 3\<close>.
\<close>

theorem reserve_approve_cancel_trace:
  "LeaveBalance.PendingDays
     (example_balance\<lparr>PendingDays :=
        LeaveBalance.PendingDays example_balance + Days example_created\<rparr>) = 3 \<and>
   status_change_effect example_approved
     (example_balance\<lparr>PendingDays := 3, RemainingDays := 7\<rparr>) =
     example_balance\<lparr>UsedDays := 3, PendingDays := 0, RemainingDays := 7\<rparr> \<and>
   CanCancel (monday - nsPerDay) example_approved \<and>
   First_LeaveBalance example_cancelled example_db_approved =
     Some (example_balance\<lparr>UsedDays := 3, PendingDays := 0, RemainingDays := 7\<rparr>) \<and>
   status_change_effect example_cancelled
     (example_balance\<lparr>UsedDays := 3, PendingDays := 0, RemainingDays := 7\<rparr>) =
     example_balance\<lparr>UsedDays := 3, PendingDays := - 3, RemainingDays := 7\<rparr> \<and>
   leaveRepository_UpdateLeaveRequest example_cancelled example_db_approved =
     (Inl ErrGeneratedAlways, example_db_approved) \<and>
   map LeaveBalance.UsedDays (leave_balances example_db_approved) = [3] \<and>
   map LeaveBalance.PendingDays (leave_balances example_db_approved) = [0]"
  by (simp add: example_switch example_can_cancel example_stage_ledger example_cancel)
     (simp add: example_db_approved_def example_balance_def example_created_def)

text \<open>
  Claim C5. The approved example request is in a terminal state: \<open>CanApprove\<close> is
  false for it, and no transition leads from \<open>approved\<close> to \<open>rejected\<close>. Submitted
  with the status \<open>rejected\<close>, it is treated by \<open>UpdateLeaveRequest\<close> like any change
  of status: the ledger row is read, the \<open>switch\<close> takes the three days from
  \<open>pending_days\<close> once more, and the row is handed to \<open>Save\<close>. The call fails with the
  error of the refused ledger write, the same error with which the valid approval of
  the pending request fails; the transition is not checked and has no error of its
  own.
\<close>

theorem terminal_transition_not_checked:
  "\<not> CanApprove example_approved \<and>
   CanApprove example_created \<and>
   find (\<lambda>row. ID row = ID example_rejected) (leave_requests example_db_approved) =
     Some example_approved \<and>
   First_LeaveBalance example_rejected example_db_approved =
     Some (example_balance\<lparr>UsedDays := 3, PendingDays := 0, RemainingDays := 7\<rparr>) \<and>
   status_change_effect example_rejected
     (example_balance\<lparr>UsedDays := 3, PendingDays := 0, RemainingDays := 7\<rparr>) =
     example_balance\<lparr>UsedDays := 3, PendingDays := - 3, RemainingDays := 7\<rparr> \<and>
   leaveRepository_UpdateLeaveRequest example_rejected example_db_approved =
     (Inl ErrGeneratedAlways, example_db_approved) \<and>
   leaveRepository_UpdateLeaveRequest example_approved example_db_reserved =
     (Inl ErrGeneratedAlways, example_db_reserved)"
  by (simp add: example_switch example_stage_ledger example_stage_rows example_reject
        example_approve)
     (simp add: CanApprove_def LeaveStatusPending_def example_stage_status)


section \<open>Approving a balance adjustment\<close>

lemma find_map_replace:
  assumes "find P rows = Some b" and "P b'"
  shows "find P (map (\<lambda>row. if k row = k b then b' else row) rows) = Some b'"
  using assms by (induction rows) (auto split: if_splits)

lemma find_ID_Save_LeaveBalanceAdjustment:
  assumes "find (\<lambda>row. ID row = ID adjustment) (leave_balance_adjustments tx) = Some old"
  shows "find (\<lambda>row. ID row = ID adjustment)
           (leave_balance_adjustments (Save_LeaveBalanceAdjustment adjustment tx)) =
     Some adjustment"
proof -
  from assms have i: "ID old = ID adjustment" by (auto simp: find_Some_iff)
  from find_map_replace [OF assms, of adjustment ID] i
  show ?thesis by (simp add: Save_LeaveBalanceAdjustment_def)
qed

lemma Save_LeaveBalanceAdjustment_balances:
  "leave_balances (Save_LeaveBalanceAdjustment adjustment tx) = leave_balances tx"
  by (simp add: Save_LeaveBalanceAdjustment_def)

text \<open>
  The ledger is read and written only when the stored status differs from the
  submitted status \<open>approved\<close>; in every other case the update saves the adjustment
  and nothing else.
\<close>

lemma UpdateBalanceAdjustment_guarded:
  assumes "find (\<lambda>row. ID row = ID adjustment) (leave_balance_adjustments db) = Some oldAdjustment"
    and "LeaveBalanceAdjustment.Status oldAdjustment = LeaveBalanceAdjustment.Status adjustment \<or>
         LeaveBalanceAdjustment.Status adjustment \<noteq> ''approved''"
  shows "leaveRepository_UpdateBalanceAdjustment adjustment db =
     (Inr (), Save_LeaveBalanceAdjustment adjustment db)"
  using assms
  by (auto simp: leaveRepository_UpdateBalanceAdjustment_def Transaction_def
        AdjustmentStatusApproved_def)

lemma UpdateBalanceAdjustment_first_approval:
  assumes "find (\<lambda>row. ID row = ID adjustment) (leave_balance_adjustments db) = Some oldAdjustment"
    and "LeaveBalanceAdjustment.Status oldAdjustment \<noteq> ''approved''"
    and "LeaveBalanceAdjustment.Status adjustment = ''approved''"
    and "find (\<lambda>row. ID row = LeaveBalanceID adjustment) (leave_balances db) = Some balance"
  shows "leaveRepository_UpdateBalanceAdjustment adjustment db = (Inl ErrGeneratedAlways, db)"
  using assms
  by (simp add: leaveRepository_UpdateBalanceAdjustment_def Transaction_def
        AdjustmentStatusApproved_def Save_LeaveBalance_refused)

lemma UpdateBalanceAdjustment_success:
  assumes "leaveRepository_UpdateBalanceAdjustment adjustment db = (Inr (), db')"
  shows "db' = Save_LeaveBalanceAdjustment adjustment db \<and>
         (\<exists>old. find (\<lambda>row. ID row = ID adjustment) (leave_balance_adjustments db) = Some old)"
  using assms
  by (auto simp: leaveRepository_UpdateBalanceAdjustment_def Transaction_def
        Save_LeaveBalance_refused split: option.splits if_splits)

text \<open>
  After a successful approval update the adjustment is stored as submitted, so that
  submitting it again finds the status \<open>approved\<close> and is a no-op on the ledger.
\<close>

lemma UpdateBalanceAdjustment_reapproval:
  assumes "LeaveBalanceAdjustment.Status adjustment = ''approved''"
    and "leaveRepository_UpdateBalanceAdjustment adjustment db = (Inr (), db')"
  shows "leaveRepository_UpdateBalanceAdjustment adjustment db' =
           (Inr (), Save_LeaveBalanceAdjustment adjustment db') \<and>
         leave_balances (Save_LeaveBalanceAdjustment adjustment db') = leave_balances db'"
proof -
  from UpdateBalanceAdjustment_success [OF assms(2)] obtain old where
      d: "db' = Save_LeaveBalanceAdjustment adjustment db" and
      f: "find (\<lambda>row. ID row = ID adjustment) (leave_balance_adjustments db) = Some old"
    by blast
  from d find_ID_Save_LeaveBalanceAdjustment [OF f]
  have stored: "find (\<lambda>row. ID row = ID adjustment) (leave_balance_adjustments db') =
      Some adjustment"
    by simp
  have "leaveRepository_UpdateBalanceAdjustment adjustment db' =
      (Inr (), Save_LeaveBalanceAdjustment adjustment db')"
    by (intro UpdateBalanceAdjustment_guarded [OF stored]) simp
  then show ?thesis
    by (simp add: Save_LeaveBalanceAdjustment_balances)
qed

lemma example_reapprove:
  "leaveRepository_UpdateBalanceAdjustment example_adjustment_approved
     example_db_adjustment_approved = (Inr (), example_db_adjustment_approved)"
  by (simp add: leaveRepository_UpdateBalanceAdjustment_def Transaction_def
        example_db_adjustment_approved_def example_db_def Save_LeaveBalanceAdjustment_def)

text \<open>
  Claim C7. The example adjustment of two days is stored as pending on the ledger row
  with ten days in total. Its approval reads that row and computes \<open>total_days = 12\<close>,
  but the write of the row is refused: the update returns that error, the adjustment
  stays pending and \<open>total_days\<close> stays 10, so the delta is not applied even once. The
  guard against a second application works: on the store that holds the adjustment as
  approved, the approval update succeeds and leaves the store as it is.
\<close>

theorem adjustment_approval_refused:
  "find (\<lambda>row. ID row = ID example_adjustment_approved)
     (leave_balance_adjustments example_db_adjustment) = Some example_adjustment \<and>
   LeaveBalanceAdjustment.Status example_adjustment = ''pending'' \<and>
   LeaveBalanceAdjustment.Status example_adjustment_approved = ''approved'' \<and>
   find (\<lambda>row. ID row = LeaveBalanceID example_adjustment_approved)
     (leave_balances example_db_adjustment) = Some example_balance \<and>
   LeaveBalance.TotalDays example_balance = 10 \<and>
   LeaveBalance.TotalDays
     (example_balance\<lparr>LeaveBalance.TotalDays :=
        LeaveBalance.TotalDays example_balance + Adjustment example_adjustment_approved\<rparr>) = 12 \<and>
   leaveRepository_UpdateBalanceAdjustment example_adjustment_approved example_db_adjustment =
     (Inl ErrGeneratedAlways, example_db_adjustment) \<and>
   leaveRepository_UpdateBalanceAdjustment example_adjustment_approved
     example_db_adjustment_approved = (Inr (), example_db_adjustment_approved)"
proof -
  have f: "find (\<lambda>row. ID row = ID example_adjustment_approved)
       (leave_balance_adjustments example_db_adjustment) = Some example_adjustment"
    and b: "find (\<lambda>row. ID row = LeaveBalanceID example_adjustment_approved)
       (leave_balances example_db_adjustment) = Some example_balance"
    and s: "LeaveBalanceAdjustment.Status example_adjustment \<noteq> ''approved''"
      "LeaveBalanceAdjustment.Status example_adjustment_approved = ''approved''"
    by (simp_all add: example_adjustment_approved_def example_adjustment_def
          example_db_adjustment_def example_db_def example_balance_def)
  from UpdateBalanceAdjustment_first_approval [OF f s b] f b s example_reapprove
  show ?thesis
    by (simp add: example_adjustment_approved_def example_adjustment_def example_balance_def)
qed

section \<open>The overlap query\<close>

text \<open>
  For two well-formed ranges, the three-way condition of the query is the same as
  having an instant in common.
\<close>

lemma overlap_condition_iff:
  fixes rs re s e :: int
  assumes "rs \<le> re" and "s \<le> e"
  shows "((s \<le> rs \<and> rs \<le> e) \<or> (s \<le> re \<and> re \<le> e) \<or> (rs \<le> s \<and> re \<ge> e)) \<longleftrightarrow>
         (\<exists>d. rs \<le> d \<and> d \<le> re \<and> s \<le> d \<and> d \<le> e)"
proof
  assume "(s \<le> rs \<and> rs \<le> e) \<or> (s \<le> re \<and> re \<le> e) \<or> (rs \<le> s \<and> re \<ge> e)"
  then have "rs \<le> max rs s \<and> max rs s \<le> re \<and> s \<le> max rs s \<and> max rs s \<le> e"
    using assms by auto
  then show "\<exists>d. rs \<le> d \<and> d \<le> re \<and> s \<le> d \<and> d \<le> e" ..
next
  assume "\<exists>d. rs \<le> d \<and> d \<le> re \<and> s \<le> d \<and> d \<le> e"
  then show "(s \<le> rs \<and> rs \<le> e) \<or> (s \<le> re \<and> re \<le> e) \<or> (rs \<le> s \<and> re \<ge> e)"
    by auto
qed

text \<open>
  Claim C8. For a candidate range with start not after end, over stored requests whose
  start is not after their end, the overlap query returns exactly the requests of the
  employee that are pending or approved and whose range has a day in common with the
  candidate range. Whatever the ranges, every request returned is a stored request of
  the employee that is pending or approved: rejected and cancelled requests are never
  returned.
\<close>

theorem overlap_detector_exact:
  "(startDate \<le> endDate \<and>
    (\<forall>row \<in> set (leave_requests db). LeaveRequest.StartDate row \<le> LeaveRequest.EndDate row) \<longrightarrow>
   leaveRepository_GetOverlappingRequests employeeID startDate endDate db =
     filter (\<lambda>row. LeaveRequest.EmployeeID row = employeeID \<and>
               (LeaveRequest.Status row = ''pending'' \<or> LeaveRequest.Status row = ''approved'') \<and>
               (\<exists>d. LeaveRequest.StartDate row \<le> d \<and> d \<le> LeaveRequest.EndDate row \<and>
                    startDate \<le> d \<and> d \<le> endDate))
       (leave_requests db)) \<and>
   (\<forall>row \<in> set (leaveRepository_GetOverlappingRequests employeeID startDate endDate db).
      row \<in> set (leave_requests db) \<and> LeaveRequest.EmployeeID row = employeeID \<and>
      (LeaveRequest.Status row = ''pending'' \<or> LeaveRequest.Status row = ''approved''))"
proof (rule conjI)
  show "\<forall>row \<in> set (leaveRepository_GetOverlappingRequests employeeID startDate endDate db).
      row \<in> set (leave_requests db) \<and> LeaveRequest.EmployeeID row = employeeID \<and>
      (LeaveRequest.Status row = ''pending'' \<or> LeaveRequest.Status row = ''approved'')"
    by (auto simp: leaveRepository_GetOverlappingRequests_def overlap_where_def)
next
  show "startDate \<le> endDate \<and>
    (\<forall>row \<in> set (leave_requests db). LeaveRequest.StartDate row \<le> LeaveRequest.EndDate row) \<longrightarrow>
   leaveRepository_GetOverlappingRequests employeeID startDate endDate db =
     filter (\<lambda>row. LeaveRequest.EmployeeID row = employeeID \<and>
               (LeaveRequest.Status row = ''pending'' \<or> LeaveRequest.Status row = ''approved'') \<and>
               (\<exists>d. LeaveRequest.StartDate row \<le> d \<and> d \<le> LeaveRequest.EndDate row \<and>
                    startDate \<le> d \<and> d \<le> endDate))
       (leave_requests db)"
  proof
    assume a: "startDate \<le> endDate \<and>
      (\<forall>row \<in> set (leave_requests db). LeaveRequest.StartDate row \<le> LeaveRequest.EndDate row)"
    show "leaveRepository_GetOverlappingRequests employeeID startDate endDate db =
       filter (\<lambda>row. LeaveRequest.EmployeeID row = employeeID \<and>
                 (LeaveRequest.Status row = ''pending'' \<or> LeaveRequest.Status row = ''approved'') \<and>
                 (\<exists>d. LeaveRequest.StartDate row \<le> d \<and> d \<le> LeaveRequest.EndDate row \<and>
                      startDate \<le> d \<and> d \<le> endDate))
         (leave_requests db)"
      unfolding leaveRepository_GetOverlappingRequests_def
    proof (rule filter_cong [OF refl])
      fix row
      assume "row \<in> set (leave_requests db)"
      with a have wf: "LeaveRequest.StartDate row \<le> LeaveRequest.EndDate row" by blast
      from a have c: "startDate \<le> endDate" by blast
      show "overlap_where employeeID startDate endDate row =
        (LeaveRequest.EmployeeID row = employeeID \<and>
         (LeaveRequest.Status row = ''pending'' \<or> LeaveRequest.Status row = ''approved'') \<and>
         (\<exists>d. LeaveRequest.StartDate row \<le> d \<and> d \<le> LeaveRequest.EndDate row \<and>
              startDate \<le> d \<and> d \<le> endDate))"
        unfolding overlap_where_def overlap_condition_iff [OF wf c] by simp
    qed
  qed
qed

theorem overlap_detector_exact_witness:
  "leaveRepository_GetOverlappingRequests 7 (monday + 2 * nsPerDay) (monday + 4 * nsPerDay)
     example_db_existing = [example_existing] \<and>
   leaveRepository_GetOverlappingRequests 7 (monday + 2 * nsPerDay) (monday + 4 * nsPerDay)
     example_db_rejected = []"
proof
  have c: "monday + 2 * nsPerDay \<le> monday + 4 * nsPerDay" by (simp add: nsPerDay_def)
  have wf: "\<forall>row \<in> set (leave_requests example_db_existing).
      LeaveRequest.StartDate row \<le> LeaveRequest.EndDate row"
    by (simp add: example_db_existing_def example_existing_def example_created_def
          example_request_def nsPerDay_def)
  have d: "LeaveRequest.StartDate example_existing \<le> monday + 2 * nsPerDay \<and>
      monday + 2 * nsPerDay \<le> LeaveRequest.EndDate example_existing \<and>
      monday + 2 * nsPerDay \<le> monday + 2 * nsPerDay \<and>
      monday + 2 * nsPerDay \<le> monday + 4 * nsPerDay"
    by (simp add: example_existing_def example_created_def example_request_def nsPerDay_def)
  then have "\<exists>d. LeaveRequest.StartDate example_existing \<le> d \<and>
      d \<le> LeaveRequest.EndDate example_existing \<and>
      monday + 2 * nsPerDay \<le> d \<and> d \<le> monday + 4 * nsPerDay" ..
  moreover have "LeaveRequest.EmployeeID example_existing = 7"
      "LeaveRequest.Status example_existing = ''pending''"
      "leave_requests example_db_existing = [example_existing]"
    by (simp_all add: example_db_existing_def example_existing_def example_created_def
          example_request_def)
  ultimately show "leaveRepository_GetOverlappingRequests 7 (monday + 2 * nsPerDay)
      (monday + 4 * nsPerDay) example_db_existing = [example_existing]"
    using overlap_detector_exact
            [of "monday + 2 * nsPerDay" "monday + 4 * nsPerDay" example_db_existing 7,
             THEN conjunct1] c wf
    by simp
next
  have c: "monday + 2 * nsPerDay \<le> monday + 4 * nsPerDay" by (simp add: nsPerDay_def)
  have wf: "\<forall>row \<in> set (leave_requests example_db_rejected).
      LeaveRequest.StartDate row \<le> LeaveRequest.EndDate row"
    by (simp add: example_db_rejected_def example_rejected_def example_approved_def
          example_created_def example_request_def nsPerDay_def)
  have "leave_requests example_db_rejected = [example_rejected]"
      "LeaveRequest.Status example_rejected = ''rejected''"
    by (simp_all add: example_db_rejected_def example_rejected_def)
  then show "leaveRepository_GetOverlappingRequests 7 (monday + 2 * nsPerDay)
      (monday + 4 * nsPerDay) example_db_rejected = []"
    using overlap_detector_exact
            [of "monday + 2 * nsPerDay" "monday + 4 * nsPerDay" example_db_rejected 7,
             THEN conjunct1] c wf
    by simp
qed

section \<open>The remaining days of a ledger row\<close>






section \<open>The service: what the caller cannot set\<close>




lemma example_GetLeaveType: "leaveService_GetLeaveType 1 3 example_db = Inr example_leave_type"
  by (simp add: leaveService_GetLeaveType_def leaveRepository_GetLeaveType_def example_db_def
        example_leave_type_def)

lemma totalDays_example:
  "totalDays monday monday = 0"
  "totalDays monday (monday + 2 * nsPerDay) = 2"
  "totalDays monday (monday + 4 * nsPerDay) = 4"
  "totalDays monday (monday + 6 * nsPerDay) = 6"
  "totalDays monday (monday + 11 * nsPerDay) = 11"
  by (simp_all add: totalDays_def Sub_def Milliseconds_def quo_def maxDuration_def
        minDuration_def nsPerDay_def Let_def)



section \<open>The service: the maximum number of days per request\<close>

lemma quo_nonneg: "0 \<le> a \<Longrightarrow> 0 < b \<Longrightarrow> quo a b = a div b"
  by (cases "a = 0") (simp_all add: quo_def)

text \<open>
  For a start not after the end, the service's day count is the number of whole days
  elapsed from start to end, capped by the saturation of \<open>Duration\<close> at 106751 days:
  the last day of the range is not counted, Saturdays and Sundays are.
\<close>

lemma totalDays_elapsed:
  assumes "startDate \<le> endDate"
  shows "totalDays startDate endDate = min ((endDate - startDate) div nsPerDay) 106751"
proof -
  define d where "d = endDate - startDate"
  have d0: "0 \<le> d" using assms by (simp add: d_def)
  have sub: "Sub endDate startDate = min d maxDuration"
    using d0 by (simp add: Sub_def d_def [symmetric] Let_def maxDuration_def minDuration_def min_def)
  have m0: "0 \<le> min d maxDuration" using d0 by (simp add: maxDuration_def)
  then have ms: "Milliseconds (min d maxDuration) = min d maxDuration div 1000000"
    by (simp add: Milliseconds_def quo_nonneg)
  have "0 \<le> min d maxDuration div 1000000"
    using m0 by (simp add: pos_imp_zdiv_nonneg_iff)
  then have "totalDays startDate endDate = (min d maxDuration div 1000000) div 86400000"
    by (simp add: totalDays_def sub ms quo_nonneg)
  also have "\<dots> = min d maxDuration div nsPerDay"
    by (simp add: nsPerDay_def div_mult2_eq [symmetric])
  also have "\<dots> = min (d div nsPerDay) 106751"
  proof (cases "d \<le> maxDuration")
    case True
    then have "d div nsPerDay \<le> maxDuration div nsPerDay"
      by (simp add: zdiv_mono1 nsPerDay_def)
    with True show ?thesis by (simp add: min_def maxDuration_def nsPerDay_def)
  next
    case False
    then have "maxDuration div nsPerDay \<le> d div nsPerDay"
      by (simp add: zdiv_mono1 nsPerDay_def)
    with False show ?thesis by (simp add: min_def maxDuration_def nsPerDay_def)
  qed
  finally show ?thesis by (simp add: d_def)
qed

lemma example_range_working_days:
  "calculateWorkingDays monday monday = 1"
  "calculateWorkingDays monday (monday + 4 * nsPerDay) = 5"
  "calculateWorkingDays monday (monday + 6 * nsPerDay) = 5"
  "calculateWorkingDays monday (monday + 11 * nsPerDay) = 10"
  by (simp_all add: calculateWorkingDays_count weekdays_in_range_def days_in_range_def
        is_weekend_def Weekday_def monday_def nsPerDay_def upt_conv_Cons)

lemma example_GetLeaveType_max4:
  "leaveService_GetLeaveType 1 3 example_db_max4 =
     Inr (example_leave_type\<lparr>MaxDaysPerRequest := 4\<rparr>)"
  by (simp add: leaveService_GetLeaveType_def leaveRepository_GetLeaveType_def
        example_db_max4_def example_db_def example_leave_type_def)

lemma example_req_fields:
  "CreateLeaveRequestRequest.EmployeeID example_req_week = 7"
  "CreateLeaveRequestRequest.LeaveTypeID example_req_week = 3"
  "CreateLeaveRequestRequest.StartDate example_req_week = monday"
  "CreateLeaveRequestRequest.EndDate example_req_week = monday + 6 * nsPerDay"
  "CreateLeaveRequestRequest.EmployeeID example_req_workweek = 7"
  "CreateLeaveRequestRequest.LeaveTypeID example_req_workweek = 3"
  "CreateLeaveRequestRequest.StartDate example_req_workweek = monday"
  "CreateLeaveRequestRequest.EndDate example_req_workweek = monday + 4 * nsPerDay"
  "CreateLeaveRequestRequest.EmployeeID example_req_fortnight = 7"
  "CreateLeaveRequestRequest.LeaveTypeID example_req_fortnight = 3"
  "CreateLeaveRequestRequest.StartDate example_req_fortnight = monday"
  "CreateLeaveRequestRequest.EndDate example_req_fortnight = monday + 11 * nsPerDay"
  by (simp_all add: example_req_week_def example_req_workweek_def example_req_fortnight_def
        example_req_def)

lemma example_not_After:
  "\<not> After monday (monday + 4 * nsPerDay)" "\<not> After monday (monday + 6 * nsPerDay)"
  "\<not> After monday (monday + 11 * nsPerDay)"
  by (simp_all add: After_def nsPerDay_def)

text \<open>
  With a maximum of four days, the call for Monday to Friday passes the check of the
  service and goes on to the repository, where it ends like every creation.
\<close>

lemma example_workweek_passes:
  "leaveService_CreateLeaveRequest 21 1 example_req_workweek example_db_max4 =
     (Inl ErrGeneratedAlways, example_db_max4)"
proof -
  let ?request = "\<lparr>ID = 0,
       LeaveRequest.OrganizationID = 0,
       LeaveRequest.EmployeeID = 7,
       LeaveRequest.LeaveTypeID = 3,
       LeaveRequest.StartDate = monday,
       LeaveRequest.EndDate = monday + 4 * nsPerDay,
       Days = 0,
       LeaveRequest.Status = LeaveStatusPending,
       LeaveRequest.Reason = CreateLeaveRequestRequest.Reason example_req_workweek,
       LeaveRequest.Comments = [],
       LeaveRequest.ApprovedBy = None,
       LeaveRequest.ApprovedAt = None\<rparr>"
  have led: "First_LeaveBalance ?request example_db_max4 = Some example_balance"
    by (simp add: First_LeaveBalance_def example_db_max4_def example_db_def
          example_balance_def balance_where_def Time_Year_monday)
  have "leaveRepository_CreateLeaveRequest 21 ?request example_db_max4 =
      (Inl ErrGeneratedAlways, example_db_max4)"
    by (rule CreateLeaveRequest_ledger_refused [OF led])
       (simp_all add: example_not_After example_db_max4_def example_db_def)
  then show ?thesis
    by (simp add: leaveService_CreateLeaveRequest_def example_req_fields example_not_After
          example_GetLeaveType_max4 totalDays_example del: One_nat_def)
qed

text \<open>
  Claim C3. The check of the service does not compare the day count of the request.
  With a maximum of five days, Monday to the Sunday after it holds five working days
  and is refused, six days having elapsed. With a maximum of four days, Monday to
  Friday holds five working days and passes the check, four days having elapsed; a
  request for a single day counts as zero. The scenario of the claim holds: with a
  maximum of five days, a range of ten working days is refused.
\<close>

theorem max_days_check_failing_inputs:
  "calculateWorkingDays (CreateLeaveRequestRequest.StartDate example_req_week)
     (CreateLeaveRequestRequest.EndDate example_req_week) = 5 \<and>
   totalDays (CreateLeaveRequestRequest.StartDate example_req_week)
     (CreateLeaveRequestRequest.EndDate example_req_week) = 6 \<and>
   leaveService_GetLeaveType 1 (CreateLeaveRequestRequest.LeaveTypeID example_req_week) example_db =
     Inr example_leave_type \<and>
   MaxDaysPerRequest example_leave_type = 5 \<and>
   leaveService_CreateLeaveRequest 21 1 example_req_week example_db =
     (Inl (New ''total days exceed maximum allowed''), example_db) \<and>
   calculateWorkingDays (CreateLeaveRequestRequest.StartDate example_req_workweek)
     (CreateLeaveRequestRequest.EndDate example_req_workweek) = 5 \<and>
   totalDays (CreateLeaveRequestRequest.StartDate example_req_workweek)
     (CreateLeaveRequestRequest.EndDate example_req_workweek) = 4 \<and>
   leaveService_GetLeaveType 1 (CreateLeaveRequestRequest.LeaveTypeID example_req_workweek)
     example_db_max4 = Inr (example_leave_type\<lparr>MaxDaysPerRequest := 4\<rparr>) \<and>
   leaveService_CreateLeaveRequest 21 1 example_req_workweek example_db_max4 =
     (Inl ErrGeneratedAlways, example_db_max4) \<and>
   calculateWorkingDays monday monday = 1 \<and>
   totalDays monday monday = 0 \<and>
   calculateWorkingDays (CreateLeaveRequestRequest.StartDate example_req_fortnight)
     (CreateLeaveRequestRequest.EndDate example_req_fortnight) = 10 \<and>
   leaveService_CreateLeaveRequest 21 1 example_req_fortnight example_db =
     (Inl (New ''total days exceed maximum allowed''), example_db)"
proof (intro conjI)
  show "leaveService_CreateLeaveRequest 21 1 example_req_week example_db =
     (Inl (New ''total days exceed maximum allowed''), example_db)"
    by (simp add: leaveService_CreateLeaveRequest_def example_req_fields example_not_After
          example_GetLeaveType totalDays_example example_leave_type_def del: One_nat_def)
next
  show "leaveService_CreateLeaveRequest 21 1 example_req_fortnight example_db =
     (Inl (New ''total days exceed maximum allowed''), example_db)"
    by (simp add: leaveService_CreateLeaveRequest_def example_req_fields example_not_After
          example_GetLeaveType totalDays_example example_leave_type_def del: One_nat_def)
next
  show "leaveService_CreateLeaveRequest 21 1 example_req_workweek example_db_max4 =
     (Inl ErrGeneratedAlways, example_db_max4)"
    by (rule example_workweek_passes)
qed (simp_all add: example_req_fields example_range_working_days totalDays_example
       example_GetLeaveType example_GetLeaveType_max4 del: One_nat_def,
     simp_all add: example_leave_type_def)

end
